theory Spec2Isabelle
  imports Complex_Main "HOL-Library.Sublist"
begin

section \<open>Data model\<close>

text \<open>
  The analytics service works on a per-user table of transactions fetched from the
  store. A row of that table is a record; the table is the list of its rows in the
  order the fetch returns them. A pandas timestamp is its number of nanoseconds since
  the epoch. Money amounts are Python floats; they are modelled as real numbers, so
  every statement below is about the arithmetic the code writes down, not about
  binary rounding of intermediate results.
\<close>

type_synonym timestamp = int

record transaction =
  date :: timestamp
  amount :: real
  ttype :: string
  category :: string
  description :: string

type_synonym dataframe = "transaction list"

definition NS_PER_DAY :: int where
  "NS_PER_DAY = 86400000000000"

text \<open>\<^verbatim>\<open>Timedelta.days\<close>: whole days of a difference of two timestamps (floor).\<close>

definition days :: "int \<Rightarrow> int" where
  "days delta = delta div NS_PER_DAY"

definition date_max :: "dataframe \<Rightarrow> timestamp" where
  "date_max df = Max (set (map date df))"

definition date_min :: "dataframe \<Rightarrow> timestamp" where
  "date_min df = Min (set (map date df))"

subsection \<open>Text helpers\<close>

text \<open>\<^verbatim>\<open>str(n)\<close> of a Python integer, as f-strings insert it.\<close>

definition digit_char :: "nat \<Rightarrow> char" where
  "digit_char d = ''0123456789'' ! d"

fun str_nat :: "nat \<Rightarrow> string" where
  "str_nat n = (if n < 10 then [digit_char n] else str_nat (n div 10) @ [digit_char (n mod 10)])"

definition str_int :: "int \<Rightarrow> string" where
  "str_int i = (if i < 0 then CHR ''-'' # str_nat (nat (- i)) else str_nat (nat i))"

text \<open>\<^verbatim>\<open>sep.join(parts)\<close>.\<close>

fun join :: "string \<Rightarrow> string list \<Rightarrow> string" where
  "join sep [] = []"
| "join sep [p] = p"
| "join sep (p # q # ps) = p @ sep @ join sep (q # ps)"

section \<open>Sufficiency gate (database/data\_fetcher.py)\<close>

record sufficiency =
  sufficient :: bool
  reason :: string
  days_of_data :: int
  total_transactions :: int
  expense_transactions :: int
  oldest_transaction :: "timestamp option"
  newest_transaction :: "timestamp option"

text \<open>
  The three failure clauses of the gate, as the f-strings build them.
\<close>

definition days_reason :: "int \<Rightarrow> int \<Rightarrow> string" where
  "days_reason date_range min_days =
     ''Data spans only '' @ str_int date_range @ '' days (need '' @ str_int min_days @ ''+)''"

definition transactions_reason :: "int \<Rightarrow> int \<Rightarrow> string" where
  "transactions_reason total_txs min_transactions =
     ''Only '' @ str_int total_txs @ '' transactions (need '' @ str_int min_transactions @ ''+)''"

definition expenses_reason :: "int \<Rightarrow> int \<Rightarrow> string" where
  "expenses_reason expense_txs min_expenses =
     ''Only '' @ str_int expense_txs @ '' expense transactions (need '' @ str_int min_expenses @ ''+)''"

text \<open>
  \<^verbatim>\<open>DataFetcher.check_data_sufficiency(df, min_days, min_transactions, min_expenses)\<close>.
  The two keys \<^verbatim>\<open>oldest_transaction\<close> and \<^verbatim>\<open>newest_transaction\<close> are absent from the
  dictionary of the empty branch (\<open>None\<close> here); in the other branch they hold the
  earliest and latest timestamp, which the source prints as a calendar date.
\<close>

definition check_data_sufficiency :: "dataframe \<Rightarrow> int \<Rightarrow> int \<Rightarrow> int \<Rightarrow> sufficiency" where
  "check_data_sufficiency df min_days min_transactions min_expenses =
     (if df = [] then
        \<lparr>sufficient = False, reason = ''No transaction data found'', days_of_data = 0,
         total_transactions = 0, expense_transactions = 0,
         oldest_transaction = None, newest_transaction = None\<rparr>
      else
        let date_range = days (date_max df - date_min df) + 1;
            total_txs = int (length df);
            expense_txs = int (length (filter (\<lambda>t. ttype t = ''expense'') df));
            has_enough_days = (date_range \<ge> min_days);
            has_enough_transactions = (total_txs \<ge> min_transactions);
            has_enough_expenses = (expense_txs \<ge> min_expenses);
            reasons = (if \<not> has_enough_days then [days_reason date_range min_days] else [])
                    @ (if \<not> has_enough_transactions then [transactions_reason total_txs min_transactions] else [])
                    @ (if \<not> has_enough_expenses then [expenses_reason expense_txs min_expenses] else [])
        in \<lparr>sufficient = has_enough_days \<and> has_enough_transactions \<and> has_enough_expenses,
            reason = (if reasons \<noteq> [] then join ''; '' reasons else ''Data is sufficient''),
            days_of_data = date_range,
            total_transactions = total_txs,
            expense_transactions = expense_txs,
            oldest_transaction = Some (date_min df),
            newest_transaction = Some (date_max df)\<rparr>)"


section \<open>Numeric helpers\<close>

text \<open>
  \<^verbatim>\<open>round(x, ndigits)\<close> on a float rounds to the nearest multiple of \<open>10^-ndigits\<close>,
  ties going to the even neighbour.
\<close>

definition round_half_even :: "real \<Rightarrow> int" where
  "round_half_even x =
     (let f = \<lfloor>x\<rfloor>; d = x - of_int f
      in if d < 1 / 2 then f else if d > 1 / 2 then f + 1 else if even f then f else f + 1)"

definition py_round :: "real \<Rightarrow> nat \<Rightarrow> real" where
  "py_round x ndigits = of_int (round_half_even (x * 10 ^ ndigits)) / 10 ^ ndigits"

text \<open>
  \<^verbatim>\<open>np.mean\<close> and \<^verbatim>\<open>Series.mean\<close>. Both give NaN on an empty input; the callers
  below reach them with at least one value.
\<close>

definition mean :: "real list \<Rightarrow> real" where
  "mean xs = sum_list xs / real (length xs)"

text \<open>
  \<^verbatim>\<open>Series.std()\<close>: the sample standard deviation (one degree of freedom removed).
  pandas gives NaN for fewer than two values; each caller below either guards the
  length itself or says what it does with the NaN.
\<close>

definition std :: "real list \<Rightarrow> real" where
  "std xs = sqrt (sum_list (map (\<lambda>x. (x - mean xs)\<^sup>2) xs) / (real (length xs) - 1))"

text \<open>\<^verbatim>\<open>Series.unique()\<close>: the distinct values in order of first appearance.\<close>

definition unique :: "'a list \<Rightarrow> 'a list" where
  "unique xs = rev (remdups (rev xs))"

section \<open>Budget service (services/budget\_service.py)\<close>

text \<open>
  The per-category statistics that the budget operations read. (The source also stores
  total, mean, median, std, min and max of the raw amounts; nothing reads them.)
\<close>

record category_stat =
  count :: int
  monthly_avg :: real
  monthly_std :: real
  trend :: string

text \<open>\<^verbatim>\<open>BudgetService._calculate_trend(monthly_data)\<close>.\<close>

definition calculate_trend :: "real list \<Rightarrow> string" where
  "calculate_trend monthly_data =
     (if length monthly_data < 2 then ''stable''
      else
        let values = monthly_data;
            first_half_avg = mean (take (length values div 2) values);
            second_half_avg = mean (drop (length values div 2) values)
        in if first_half_avg = 0 then (if second_half_avg > 0 then ''increasing'' else ''stable'')
           else
             let change_pct = ((second_half_avg - first_half_avg) / first_half_avg) * 100
             in if change_pct > 15 then ''increasing''
                else if change_pct < - 15 then ''decreasing''
                else ''stable'')"

text \<open>
  \<^verbatim>\<open>cat_data.groupby('month')['amount'].sum()\<close>: one total per calendar month that
  occurs, in ascending order of the month. The calendar month of a timestamp
  (\<^verbatim>\<open>dt.to_period('M')\<close>) is the parameter \<open>month_of\<close>.
\<close>

definition monthly_sums :: "(timestamp \<Rightarrow> int) \<Rightarrow> dataframe \<Rightarrow> real list" where
  "monthly_sums month_of cat_data =
     map (\<lambda>m. sum_list (map amount (filter (\<lambda>t. month_of (date t) = m) cat_data)))
         (sort (remdups (map (\<lambda>t. month_of (date t)) cat_data)))"

definition category_stats_of :: "(timestamp \<Rightarrow> int) \<Rightarrow> dataframe \<Rightarrow> category_stat" where
  "category_stats_of month_of cat_data =
     (let monthly_spending = monthly_sums month_of cat_data
      in \<lparr>count = int (length cat_data),
          monthly_avg = (if length monthly_spending > 0 then mean monthly_spending else 0),
          monthly_std = (if length monthly_spending > 1 then std monthly_spending else 0),
          trend = calculate_trend monthly_spending\<rparr>)"

text \<open>
  \<^verbatim>\<open>BudgetService.analyze_spending_patterns(user_id)\<close> on the user's stored
  transactions \<open>df\<close>. The dictionary it returns is the association list of its items
  in insertion order; the empty list is the empty dictionary.
\<close>

definition analyze_spending_patterns ::
    "(timestamp \<Rightarrow> int) \<Rightarrow> dataframe \<Rightarrow> (string \<times> category_stat) list" where
  "analyze_spending_patterns month_of df =
     (if df = [] then []
      else
        let expenses = filter (\<lambda>t. ttype t = ''expense'') df
        in if expenses = [] then []
           else map (\<lambda>c. (c, category_stats_of month_of (filter (\<lambda>t. category t = c) expenses)))
                    (unique (map category expenses)))"

text \<open>\<^verbatim>\<open>BudgetService._calculate_priority(stats)\<close>.\<close>

definition calculate_priority :: "category_stat \<Rightarrow> string" where
  "calculate_priority stats =
     (let variability = (if monthly_avg stats > 0 then monthly_std stats / monthly_avg stats else 0)
      in if monthly_avg stats > 500 \<or> variability > 0.5 then ''high''
         else if monthly_avg stats > 200 \<or> variability > 0.3 then ''medium''
         else ''low'')"

text \<open>The multiplier table of \<^verbatim>\<open>recommend_budgets\<close>, a dictionary of dictionaries.\<close>

definition multipliers :: "string \<rightharpoonup> (string \<rightharpoonup> real)" where
  "multipliers =
     [''conservative'' \<mapsto> [''stable'' \<mapsto> 1.0, ''increasing'' \<mapsto> 1.15, ''decreasing'' \<mapsto> 0.90],
      ''balanced'' \<mapsto> [''stable'' \<mapsto> 1.10, ''increasing'' \<mapsto> 1.25, ''decreasing'' \<mapsto> 1.0],
      ''flexible'' \<mapsto> [''stable'' \<mapsto> 1.20, ''increasing'' \<mapsto> 1.35, ''decreasing'' \<mapsto> 1.10]]"

text \<open>\<^verbatim>\<open>multipliers.get(approach, multipliers["balanced"])\<close>.\<close>

definition selected_multipliers :: "string \<Rightarrow> (string \<rightharpoonup> real)" where
  "selected_multipliers approach =
     (case multipliers approach of Some row \<Rightarrow> row | None \<Rightarrow> the (multipliers ''balanced''))"

datatype py_error = KeyError string | ZeroDivisionError

record recommendation =
  rec_category :: string
  recommended_amount :: real
  current_monthly_avg :: real
  rec_trend :: string
  transaction_count :: int
  variability :: string
  rec_priority :: string

text \<open>
  One pass of the loop over \<^verbatim>\<open>patterns.items()\<close>. The subscript
  \<^verbatim>\<open>selected_multipliers[trend]\<close> raises \<^verbatim>\<open>KeyError\<close> on a missing key. (The
  justification sentence attached to each recommendation is text only and is left out.)
\<close>

definition recommend_one :: "string \<Rightarrow> string \<times> category_stat \<Rightarrow> py_error + recommendation" where
  "recommend_one approach item =
     (let category = fst item; stats = snd item;
          base_amount = monthly_avg stats
      in case selected_multipliers approach (trend stats) of
           None \<Rightarrow> Inl (KeyError (trend stats))
         | Some multiplier \<Rightarrow>
             let recommended_amount0 = base_amount * multiplier;
                 recommended_amount1 =
                   (if monthly_std stats > 0
                    then recommended_amount0 + monthly_std stats * 0.5
                    else recommended_amount0)
             in Inr \<lparr>rec_category = category,
                     recommended_amount = py_round recommended_amount1 2,
                     current_monthly_avg = py_round (monthly_avg stats) 2,
                     rec_trend = trend stats,
                     transaction_count = count stats,
                     variability =
                       (if monthly_std stats > monthly_avg stats * 0.3 then ''high'' else ''low''),
                     rec_priority = calculate_priority stats\<rparr>)"

fun recommend_all ::
    "string \<Rightarrow> (string \<times> category_stat) list \<Rightarrow> py_error + recommendation list" where
  "recommend_all approach [] = Inr []"
| "recommend_all approach (item # items) =
     (case recommend_one approach item of
        Inl e \<Rightarrow> Inl e
      | Inr r \<Rightarrow> (case recommend_all approach items of
                    Inl e \<Rightarrow> Inl e
                  | Inr rs \<Rightarrow> Inr (r # rs)))"

record budget_result =
  approach_used :: string
  recommendations :: "recommendation list"
  total_recommended_budget :: real
  analysis_period_months :: int

datatype budget_response =
    BudgetInsufficient string sufficiency
  | BudgetNoPatterns string
  | BudgetError py_error
  | BudgetSuccess budget_result

definition BUDGET_MIN_DAYS :: int where "BUDGET_MIN_DAYS = 30"
definition MIN_EXPENSES :: int where "MIN_EXPENSES = 20"

text \<open>
  \<^verbatim>\<open>BudgetService.recommend_budgets(user_id, approach)\<close>, on the user's stored
  transactions \<open>df\<close> (both fetches of one request see the same rows). The running
  \<^verbatim>\<open>total_budget\<close> is the sum of the rounded amounts in loop order; the list is then
  sorted by amount, highest first, the sort being stable. (The comparison with the
  user's current budgets, a separate block with its own exception handler, is left
  out.)
\<close>

definition recommend_budgets :: "(timestamp \<Rightarrow> int) \<Rightarrow> dataframe \<Rightarrow> string \<Rightarrow> budget_response" where
  "recommend_budgets month_of df approach =
     (let sufficiency = check_data_sufficiency df BUDGET_MIN_DAYS BUDGET_MIN_DAYS MIN_EXPENSES
      in if \<not> sufficient sufficiency
         then BudgetInsufficient
                (''Insufficient data for budget recommendations: '' @ reason sufficiency) sufficiency
         else
           let patterns = analyze_spending_patterns month_of df
           in if patterns = []
              then BudgetNoPatterns ''Insufficient spending data for budget recommendations''
              else case recommend_all approach patterns of
                     Inl e \<Rightarrow> BudgetError e
                   | Inr recs \<Rightarrow>
                       BudgetSuccess
                         \<lparr>approach_used = approach,
                          recommendations = sort_key (\<lambda>r. - recommended_amount r) recs,
                          total_recommended_budget =
                            py_round (sum_list (map recommended_amount recs)) 2,
                          analysis_period_months = 6\<rparr>)"

record allocation =
  alloc_category :: string
  allocated_amount :: real
  percentage_of_total :: real
  alloc_priority :: string

record allocation_result =
  total_budget :: real
  allocation_list :: "allocation list"
  categories_covered :: int

text \<open>The first loop of \<^verbatim>\<open>optimize_budget_allocation\<close>: one entry per category.\<close>

definition allocate_one :: "real \<Rightarrow> real \<Rightarrow> string \<times> category_stat \<Rightarrow> allocation" where
  "allocate_one budget total_spending item =
     (let category = fst item; stats = snd item;
          proportion = (if total_spending > 0 then monthly_avg stats / total_spending else 0);
          allocated = budget * proportion;
          priority = calculate_priority stats;
          allocated' = (if priority = ''high'' then allocated * 1.1
                        else if priority = ''low'' then allocated * 0.9
                        else allocated)
      in \<lparr>alloc_category = category,
          allocated_amount = py_round allocated' 2,
          percentage_of_total = py_round (proportion * 100) 2,
          alloc_priority = priority\<rparr>)"

text \<open>The normalisation step: every amount is scaled by one factor and rounded again.\<close>

definition normalize_allocations :: "real \<Rightarrow> allocation list \<Rightarrow> allocation list" where
  "normalize_allocations budget allocations =
     (let current_total = sum_list (map allocated_amount allocations)
      in if current_total > 0
         then let adjustment_factor = budget / current_total
              in map (\<lambda>a. a\<lparr>allocated_amount :=
                                py_round (allocated_amount a * adjustment_factor) 2\<rparr>) allocations
         else allocations)"

text \<open>
  \<^verbatim>\<open>BudgetService.optimize_budget_allocation(user_id, total_budget)\<close>; \<open>None\<close> is the
  failure envelope "Insufficient spending data".
\<close>

definition optimize_budget_allocation ::
    "(timestamp \<Rightarrow> int) \<Rightarrow> dataframe \<Rightarrow> real \<Rightarrow> allocation_result option" where
  "optimize_budget_allocation month_of df budget =
     (let patterns = analyze_spending_patterns month_of df
      in if patterns = [] then None
         else
           let total_spending = sum_list (map (\<lambda>p. monthly_avg (snd p)) patterns);
               allocations = map (allocate_one budget total_spending) patterns;
               allocations' = normalize_allocations budget allocations
           in Some \<lparr>total_budget = budget,
                    allocation_list = sort_key (\<lambda>a. - allocated_amount a) allocations',
                    categories_covered = int (length allocations')\<rparr>)"

section \<open>Sample inputs\<close>

definition sample_two_rows :: dataframe where
  "sample_two_rows =
     [\<lparr>date = 0, amount = 12, ttype = ''expense'', category = ''Food'', description = ''lunch''\<rparr>,
      \<lparr>date = 29 * NS_PER_DAY, amount = 900, ttype = ''income'', category = ''Salary'',
       description = ''pay''\<rparr>]"

(*PROOFS*)
section \<open>Properties of the sufficiency gate\<close>

lemma sublist_join:
  "p \<in> set ps \<Longrightarrow> sublist p (join sep ps)"
proof (induction sep ps rule: join.induct)
  case (1 sep)
  then show ?case by simp
next
  case (2 sep q)
  then show ?case by simp
next
  case (3 sep a b ps)
  show ?case
  proof (cases "p = a")
    case True
    then have "join sep (a # b # ps) = [] @ p @ (sep @ join sep (b # ps))" by simp
    then show ?thesis unfolding sublist_def by blast
  next
    case False
    with 3 have "sublist p (join sep (b # ps))" by simp
    then obtain u v where "join sep (b # ps) = u @ p @ v"
      unfolding sublist_def by blast
    then have "join sep (a # b # ps) = (a @ sep @ u) @ p @ v" by simp
    then show ?thesis unfolding sublist_def by blast
  qed
qed

lemma date_span_nonneg:
  assumes "df \<noteq> []"
  shows "0 \<le> date_max df - date_min df"
proof -
  from assms obtain t ts where "df = t # ts" by (cases df) auto
  then have d: "date t \<in> set (map date df)" by simp
  define d where "d = date t"
  note d = d [folded d_def]
  have "Min (set (map date df)) \<le> d" using d by (intro Min_le) auto
  moreover have "d \<le> Max (set (map date df))" using d by (intro Max_ge) auto
  ultimately have "Min (set (map date df)) \<le> Max (set (map date df))" by simp
  then show ?thesis by (simp add: date_max_def date_min_def)
qed

lemma days_nonneg: "0 \<le> d \<Longrightarrow> 0 \<le> days d"
  by (simp add: days_def NS_PER_DAY_def pos_imp_zdiv_nonneg_iff)

lemma reason_contains:
  assumes "df \<noteq> []" and "r = check_data_sufficiency df min_days min_transactions min_expenses"
  shows "days_of_data r < min_days \<Longrightarrow> sublist (days_reason (days_of_data r) min_days) (reason r)"
    and "total_transactions r < min_transactions \<Longrightarrow>
           sublist (transactions_reason (total_transactions r) min_transactions) (reason r)"
    and "expense_transactions r < min_expenses \<Longrightarrow>
           sublist (expenses_reason (expense_transactions r) min_expenses) (reason r)"
  using assms
  by (auto simp: check_data_sufficiency_def Let_def simp del: join.simps intro!: sublist_join)

text \<open>
  C9. For an empty transaction sample the gate answers \<open>sufficient = False\<close> with the
  reason text "No transaction data found" and all three counts zero. The function is
  total: the empty branch returns before any date arithmetic is attempted, so there is
  no error value to return.
\<close>

theorem check_data_sufficiency_empty:
  "check_data_sufficiency [] min_days min_transactions min_expenses =
     \<lparr>sufficient = False, reason = ''No transaction data found'', days_of_data = 0,
      total_transactions = 0, expense_transactions = 0,
      oldest_transaction = None, newest_transaction = None\<rparr>"
  by (simp add: check_data_sufficiency_def)

text \<open>
  C1. For a non-empty sample the verdict is \<open>sufficient\<close> exactly when the three
  measured quantities reach their thresholds, where the measured span is the whole days
  between the earliest and the latest timestamp plus one (so at least 1), the total is
  the number of rows and the expense count the number of rows of type "expense".
  Meeting all three thresholds exactly gives \<open>sufficient\<close>; a quantity that is one
  short of its threshold gives \<open>\<not> sufficient\<close>, and the reason then contains the
  clause of that quantity with the measured and the required value.
\<close>

theorem check_data_sufficiency_gate:
  assumes "df \<noteq> []"
    and "r = check_data_sufficiency df min_days min_transactions min_expenses"
  shows "(sufficient r \<longleftrightarrow>
            days_of_data r \<ge> min_days \<and> total_transactions r \<ge> min_transactions
            \<and> expense_transactions r \<ge> min_expenses)
       \<and> days_of_data r = days (date_max df - date_min df) + 1
       \<and> days_of_data r \<ge> 1
       \<and> total_transactions r = int (length df)
       \<and> expense_transactions r = int (length (filter (\<lambda>t. ttype t = ''expense'') df))
       \<and> (days_of_data r = min_days \<and> total_transactions r = min_transactions
            \<and> expense_transactions r = min_expenses \<longrightarrow> sufficient r)
       \<and> (days_of_data r = min_days - 1 \<longrightarrow>
            \<not> sufficient r \<and> sublist (days_reason (min_days - 1) min_days) (reason r))
       \<and> (total_transactions r = min_transactions - 1 \<longrightarrow>
            \<not> sufficient r
            \<and> sublist (transactions_reason (min_transactions - 1) min_transactions) (reason r))
       \<and> (expense_transactions r = min_expenses - 1 \<longrightarrow>
            \<not> sufficient r
            \<and> sublist (expenses_reason (min_expenses - 1) min_expenses) (reason r))"
proof -
  have span: "days_of_data r = days (date_max df - date_min df) + 1"
    using assms by (simp add: check_data_sufficiency_def Let_def)
  have tot: "total_transactions r = int (length df)"
    using assms by (simp add: check_data_sufficiency_def Let_def)
  have exp: "expense_transactions r = int (length (filter (\<lambda>t. ttype t = ''expense'') df))"
    using assms by (simp add: check_data_sufficiency_def Let_def)
  have suff: "sufficient r \<longleftrightarrow>
      days_of_data r \<ge> min_days \<and> total_transactions r \<ge> min_transactions
      \<and> expense_transactions r \<ge> min_expenses"
    using assms by (simp add: check_data_sufficiency_def Let_def)
  have one: "days_of_data r \<ge> 1"
    using span days_nonneg [OF date_span_nonneg [OF assms(1)]] by simp
  have d: "days_of_data r = min_days - 1 \<Longrightarrow>
      sublist (days_reason (min_days - 1) min_days) (reason r)"
    using reason_contains(1) [OF assms] by auto
  have t: "total_transactions r = min_transactions - 1 \<Longrightarrow>
      sublist (transactions_reason (min_transactions - 1) min_transactions) (reason r)"
    using reason_contains(2) [OF assms] by auto
  have e: "expense_transactions r = min_expenses - 1 \<Longrightarrow>
      sublist (expenses_reason (min_expenses - 1) min_expenses) (reason r)"
    using reason_contains(3) [OF assms] by auto
  show ?thesis
    using span tot exp suff one d t e by auto
qed

theorem check_data_sufficiency_gate_witness:
  "sample_two_rows \<noteq> []
   \<and> sufficient (check_data_sufficiency sample_two_rows 30 2 1)
   \<and> days_of_data (check_data_sufficiency sample_two_rows 30 2 1) = 30
   \<and> \<not> sufficient (check_data_sufficiency sample_two_rows 31 2 1)
   \<and> sublist ''Data spans only 30 days (need 31+)''
        (reason (check_data_sufficiency sample_two_rows 31 2 1))
   \<and> sublist ''Only 2 transactions (need 3+)''
        (reason (check_data_sufficiency sample_two_rows 30 3 1))
   \<and> sublist ''Only 1 expense transactions (need 2+)''
        (reason (check_data_sufficiency sample_two_rows 30 2 2))"
proof -
  have ne: "sample_two_rows \<noteq> []" by (simp add: sample_two_rows_def)
  have span: "days (date_max sample_two_rows - date_min sample_two_rows) + 1 = 30"
    by (simp add: sample_two_rows_def date_max_def date_min_def days_def NS_PER_DAY_def)
  have len: "int (length sample_two_rows) = 2" by (simp add: sample_two_rows_def)
  have exp: "int (length (filter (\<lambda>t. ttype t = ''expense'') sample_two_rows)) = 1"
    by (simp add: sample_two_rows_def)
  have texts: "days_reason 30 31 = ''Data spans only 30 days (need 31+)''"
    "transactions_reason 2 3 = ''Only 2 transactions (need 3+)''"
    "expenses_reason 1 2 = ''Only 1 expense transactions (need 2+)''"
    by (simp_all add: days_reason_def transactions_reason_def expenses_reason_def
        str_int_def digit_char_def)
  note g = check_data_sufficiency_gate [OF ne refl]
  show ?thesis
    using g [of 30 2 1] g [of 31 2 1] g [of 30 3 1] g [of 30 2 2] ne span len exp texts
    by simp
qed

end
